theory Spec2Isabelle
  imports Main
begin

section \<open>Strings of the Go standard library\<close>

text \<open>
  A Go string is a sequence of bytes; \<^typ>\<open>string\<close> is a list of \<^typ>\<open>char\<close>, one per
  byte. The parser of \<^verbatim>\<open>scan.go\<close> calls five functions of package \<^verbatim>\<open>strings\<close>:
  \<^verbatim>\<open>Split\<close>, \<^verbatim>\<open>Contains\<close>, \<^verbatim>\<open>TrimPrefix\<close>, \<^verbatim>\<open>TrimSpace\<close> (and \<^verbatim>\<open>HasPrefix\<close> through
  \<^verbatim>\<open>TrimPrefix\<close>). They are written out here as the library documents them.
\<close>

text \<open>\<^verbatim>\<open>HasPrefix(s, prefix)\<close>: \<^verbatim>\<open>len(s) >= len(prefix) && s[:len(prefix)] == prefix\<close>.\<close>

definition HasPrefix :: "string \<Rightarrow> string \<Rightarrow> bool" where
  "HasPrefix s p = (length p \<le> length s \<and> take (length p) s = p)"

text \<open>\<^verbatim>\<open>HasSuffix(s, suffix)\<close>: \<^verbatim>\<open>len(s) >= len(suffix) && s[len(s)-len(suffix):] == suffix\<close>.\<close>

definition HasSuffix :: "string \<Rightarrow> string \<Rightarrow> bool" where
  "HasSuffix s p = (length p \<le> length s \<and> drop (length s - length p) s = p)"

text \<open>\<^verbatim>\<open>TrimPrefix(s, prefix)\<close>: \<^verbatim>\<open>s\<close> without the leading \<^verbatim>\<open>prefix\<close>; \<^verbatim>\<open>s\<close> itself
  when it does not start with \<^verbatim>\<open>prefix\<close>.\<close>

definition TrimPrefix :: "string \<Rightarrow> string \<Rightarrow> string" where
  "TrimPrefix s p = (if HasPrefix s p then drop (length p) s else s)"

text \<open>\<^verbatim>\<open>Contains(s, substr)\<close>: \<^verbatim>\<open>substr\<close> occurs in \<^verbatim>\<open>s\<close> at some offset.\<close>

fun Contains :: "string \<Rightarrow> string \<Rightarrow> bool" where
  "Contains [] sub = (sub = [])"
| "Contains (c # cs) sub = (HasPrefix (c # cs) sub \<or> Contains cs sub)"

text \<open>
  \<^verbatim>\<open>Split(s, sep)\<close> for a separator of one byte (the source only splits at \<^verbatim>\<open>"\n"\<close>):
  the pieces of \<^verbatim>\<open>s\<close> between the separators, one more than there are separators, so
  the empty string splits into one empty piece.
\<close>

fun Split :: "string \<Rightarrow> char \<Rightarrow> string list" where
  "Split [] sep = [[]]"
| "Split (c # cs) sep =
     (if c = sep then [] # Split cs sep
      else (case Split cs sep of [] \<Rightarrow> [[c]] | l # ls \<Rightarrow> (c # l) # ls))"

definition newline :: char where
  "newline = CHR 0x0A"

text \<open>
  \<^verbatim>\<open>TrimSpace(s)\<close> removes all leading and all trailing white space, as defined by
  Unicode (\<^verbatim>\<open>unicode.IsSpace\<close>), from the UTF-8 text \<^verbatim>\<open>s\<close>. The white-space runes are
  U+0009..U+000D, U+0020, U+0085, U+00A0, U+1680, U+2000..U+200A, U+2028, U+2029, U+202F,
  U+205F and U+3000; \<open>spaceRunes\<close> lists their UTF-8 encodings. The first rune of a string
  is one of them exactly when the string starts with its encoding, and the last rune
  exactly when the string ends with it (a byte that decodes to no rune is not white
  space). The leading runes are removed first, the trailing ones from what is left.
\<close>

definition spaceRunes :: "string list" where
  "spaceRunes =
     [[CHR 0x09], [CHR 0x0A], [CHR 0x0B], [CHR 0x0C], [CHR 0x0D], [CHR 0x20],
      [CHR 0xC2, CHR 0x85], [CHR 0xC2, CHR 0xA0],
      [CHR 0xE1, CHR 0x9A, CHR 0x80],
      [CHR 0xE2, CHR 0x80, CHR 0x80], [CHR 0xE2, CHR 0x80, CHR 0x81],
      [CHR 0xE2, CHR 0x80, CHR 0x82], [CHR 0xE2, CHR 0x80, CHR 0x83],
      [CHR 0xE2, CHR 0x80, CHR 0x84], [CHR 0xE2, CHR 0x80, CHR 0x85],
      [CHR 0xE2, CHR 0x80, CHR 0x86], [CHR 0xE2, CHR 0x80, CHR 0x87],
      [CHR 0xE2, CHR 0x80, CHR 0x88], [CHR 0xE2, CHR 0x80, CHR 0x89],
      [CHR 0xE2, CHR 0x80, CHR 0x8A],
      [CHR 0xE2, CHR 0x80, CHR 0xA8], [CHR 0xE2, CHR 0x80, CHR 0xA9],
      [CHR 0xE2, CHR 0x80, CHR 0xAF],
      [CHR 0xE2, CHR 0x81, CHR 0x9F],
      [CHR 0xE3, CHR 0x80, CHR 0x80]]"

text \<open>The width in bytes of the white-space rune a string starts (ends) with; 0 when it
  starts (ends) with none.\<close>

definition spaceWidth :: "string \<Rightarrow> nat" where
  "spaceWidth s = (case find (HasPrefix s) spaceRunes of None \<Rightarrow> 0 | Some p \<Rightarrow> length p)"

definition spaceWidthLast :: "string \<Rightarrow> nat" where
  "spaceWidthLast s = (case find (HasSuffix s) spaceRunes of None \<Rightarrow> 0 | Some p \<Rightarrow> length p)"

fun TrimLeftSpace :: "string \<Rightarrow> string" where
  "TrimLeftSpace [] = []"
| "TrimLeftSpace (c # cs) =
     (case spaceWidth (c # cs) of 0 \<Rightarrow> c # cs | Suc k \<Rightarrow> TrimLeftSpace (drop k cs))"

text \<open>The trailing runes are removed on the reversed string: \<open>c # cs\<close> is the string
  \<open>rev (c # cs)\<close> read from its end.\<close>

fun trimRightRev :: "string \<Rightarrow> string" where
  "trimRightRev [] = []"
| "trimRightRev (c # cs) =
     (case spaceWidthLast (rev (c # cs)) of 0 \<Rightarrow> c # cs | Suc k \<Rightarrow> trimRightRev (drop k cs))"

definition TrimRightSpace :: "string \<Rightarrow> string" where
  "TrimRightSpace s = rev (trimRightRev (rev s))"

definition TrimSpace :: "string \<Rightarrow> string" where
  "TrimSpace s = TrimRightSpace (TrimLeftSpace s)"


section \<open>Results\<close>

text \<open>The struct \<^verbatim>\<open>ResultsData\<close> and its wrapper \<^verbatim>\<open>DrWEB\<close>.\<close>

record ResultsData =
  Infected :: bool
  Result :: string
  Engine :: string
  Database :: string
  Updated :: string
  MarkDown :: string
  Error :: string

record DrWEB =
  Results :: ResultsData

text \<open>The zero value of \<^verbatim>\<open>ResultsData\<close>: what a composite literal leaves in the
  fields it does not name.\<close>

definition zeroResults :: ResultsData where
  "zeroResults =
     \<lparr>Infected = False, Result = [], Engine = [], Database = [], Updated = [],
      MarkDown = [], Error = []\<rparr>"

section \<open>Processes, the clock and the file system\<close>

text \<open>
  The program runs external commands, sleeps and reads a file. A Go \<^verbatim>\<open>error\<close> is only
  ever compared with \<^verbatim>\<open>nil\<close> and read through \<^verbatim>\<open>Error()\<close>, so it is a
  \<^typ>\<open>string option\<close>: \<open>None\<close> is \<^verbatim>\<open>nil\<close>, \<open>Some e\<close> an error whose text is \<open>e\<close>.
  A context is \<open>None\<close> for \<^verbatim>\<open>nil\<close> and \<open>Some n\<close> for a deadline of \<open>n\<close> seconds.

  What the program does is recorded as a trace of events. What the outside answers is a
  parameter, the \<open>world\<close>: the result of running a command (its standard output and its
  error, as \<^verbatim>\<open>exec.Cmd.Output\<close> and \<^verbatim>\<open>utils.RunCommand\<close> return them) may depend on the
  context, on everything done so far and on the command line; so may whether the
  deadline of the context has passed. The global variables \<^verbatim>\<open>path\<close>, \<^verbatim>\<open>LicenseKey\<close> and
  \<^verbatim>\<open>BuildTime\<close> are fields of the world too. \<open>updatedFile\<close> is the file
  \<^verbatim>\<open>/opt/malice/UPDATED\<close>: \<open>None\<close> when \<^verbatim>\<open>os.Stat\<close> reports that it does not exist,
  otherwise what \<^verbatim>\<open>ioutil.ReadFile\<close> returns.
\<close>

datatype event =
    Exec "int option" "string list"
  | Sleep nat
  | Kill

record world =
  path :: string
  LicenseKey :: string
  BuildTime :: string
  run :: "int option \<Rightarrow> event list \<Rightarrow> string list \<Rightarrow> string \<times> string option"
  deadlineExceeded :: "int option \<Rightarrow> event list \<Rightarrow> bool"
  updatedFile :: "(string \<times> string option) option"

text \<open>
  A computation takes the trace so far and returns the extended trace with either its
  value (\<open>Inr\<close>) or, when \<^verbatim>\<open>log.Fatal\<close> ended the process, the logged message (\<open>Inl\<close>).
  The events are the commands run, the sleeps, and \<open>Kill\<close> for a deferred
  \<^verbatim>\<open>configd.Process.Kill()\<close>, which runs when its function returns and not when the
  process ends in \<^verbatim>\<open>log.Fatal\<close>. Debug logging and the deferred \<^verbatim>\<open>cancel()\<close> leave no
  event.
\<close>

type_synonym 'a io = "event list \<Rightarrow> (string + 'a) \<times> event list"

definition ret :: "'a \<Rightarrow> 'a io" where
  "ret x t = (Inr x, t)"

definition bindIO :: "'a io \<Rightarrow> ('a \<Rightarrow> 'b io) \<Rightarrow> 'b io" where
  "bindIO m f t = (case m t of (Inl e, t') \<Rightarrow> (Inl e, t') | (Inr x, t') \<Rightarrow> f x t')"

definition exec :: "world \<Rightarrow> int option \<Rightarrow> string list \<Rightarrow> (string \<times> string option) io" where
  "exec w ctx argv t = (Inr (run w ctx t argv), t @ [Exec ctx argv])"

definition sleep :: "nat \<Rightarrow> unit io" where
  "sleep n t = (Inr (), t @ [Sleep n])"

definition kill :: "unit io" where
  "kill t = (Inr (), t @ [Kill])"

definition deadline :: "world \<Rightarrow> int option \<Rightarrow> bool io" where
  "deadline w ctx t = (Inr (deadlineExceeded w ctx t), t)"

definition drweb_configd :: string where
  "drweb_configd = ''/opt/drweb.com/bin/drweb-configd''"

definition drweb_ctl :: string where
  "drweb_ctl = ''/opt/drweb.com/bin/drweb-ctl''"

text \<open>\<^verbatim>\<open>assert\<close>: an error other than \<^verbatim>\<open>"exit status 13"\<close> is fatal.\<close>

definition assert :: "string option \<Rightarrow> unit io" where
  "assert err =
     (case err of
        None \<Rightarrow> ret ()
      | Some e \<Rightarrow> if e \<noteq> ''exit status 13'' then (\<lambda>t. (Inl e, t)) else ret ())"

section \<open>The parser\<close>

definition getDrWebVersion :: "world \<Rightarrow> string io" where
  "getDrWebVersion w =
     bindIO (exec w None [drweb_ctl, ''--version'']) (\<lambda>(versionOut, err).
     bindIO (assert err) (\<lambda>_.
     ret (TrimSpace (TrimPrefix versionOut ''drweb-ctl ''))))"

definition getUpdatedDate :: "world \<Rightarrow> string io" where
  "getUpdatedDate w =
     (case updatedFile w of
        None \<Rightarrow> ret (BuildTime w)
      | Some (updated, err) \<Rightarrow> bindIO (assert err) (\<lambda>_. ret updated))"

text \<open>The first loop of \<^verbatim>\<open>ParseDrWEBOutput\<close>, over the lines of the scan transcript:
  \<^verbatim>\<open>break\<close> returns the struct as it is.\<close>

fun scanLoop :: "string \<Rightarrow> ResultsData \<Rightarrow> string list \<Rightarrow> ResultsData" where
  "scanLoop p drweb [] = drweb"
| "scanLoop p drweb (line # rest) =
     (if length line \<noteq> 0 then
        (if Contains line ''- Ok'' then drweb
         else scanLoop p
                (drweb\<lparr>Infected := True,
                       Result := TrimSpace (TrimPrefix line (p @ '' - ''))\<rparr>) rest)
      else scanLoop p drweb rest)"

text \<open>The second loop, over the lines of the \<^verbatim>\<open>baseinfo\<close> transcript.\<close>

definition baseStep :: "ResultsData \<Rightarrow> string \<Rightarrow> ResultsData" where
  "baseStep drweb line =
     (if length line \<noteq> 0 then
        (let d1 = (if Contains line ''Core engine:''
                   then drweb\<lparr>Engine := TrimSpace (TrimPrefix line ''Core engine:'')\<rparr>
                   else drweb)
         in (if Contains line ''Virus base records:''
             then d1\<lparr>Database := TrimSpace (TrimPrefix line ''Virus base records:'')\<rparr>
             else d1))
      else drweb)"

fun baseLoop :: "ResultsData \<Rightarrow> string list \<Rightarrow> ResultsData" where
  "baseLoop drweb [] = drweb"
| "baseLoop drweb (line # rest) = baseLoop (baseStep drweb line) rest"

definition ParseDrWEBOutput ::
  "world \<Rightarrow> string \<Rightarrow> string \<Rightarrow> string option \<Rightarrow> (ResultsData \<times> string option) io" where
  "ParseDrWEBOutput w drwebOut baseInfo drwebErr =
     (case drwebErr of
        Some e \<Rightarrow>
          if e = ''exit status 119''
          then ret (zeroResults\<lparr>Error := ''ScanEngine is not available''\<rparr>, drwebErr)
          else ret (zeroResults\<lparr>Error := e\<rparr>, drwebErr)
      | None \<Rightarrow>
          bindIO (getDrWebVersion w) (\<lambda>version.
          bindIO (getUpdatedDate w) (\<lambda>updated.
          ret (baseLoop
                 (scanLoop (path w)
                    (zeroResults\<lparr>Infected := False, Engine := version, Updated := updated\<rparr>)
                    (Split drwebOut newline))
                 (Split baseInfo newline),
               None))))"

section \<open>The scan\<close>

definition updateLicense :: "world \<Rightarrow> int option \<Rightarrow> (string option) io" where
  "updateLicense w ctx =
     bindIO (exec w ctx [drweb_configd, ''-d'']) (\<lambda>(_, err).
       if err \<noteq> None then ret err
       else
         bindIO (sleep 1) (\<lambda>_.
         bindIO (deadline w ctx) (\<lambda>exceeded.
           if exceeded
           then bindIO kill (\<lambda>_. ret (Some ''command updateLicense() timed out''))
           else
             bindIO (if length (LicenseKey w) > 0
                     then exec w ctx [drweb_ctl, ''license'', ''--GetRegistered'', LicenseKey w]
                     else exec w ctx [drweb_ctl, ''license'', ''--GetDemo'']) (\<lambda>_.
             bindIO kill (\<lambda>_. ret None)))))"

definition didLicenseExpire :: "world \<Rightarrow> int option \<Rightarrow> (bool \<times> string option) io" where
  "didLicenseExpire w ctx =
     bindIO (exec w ctx [drweb_configd, ''-d'']) (\<lambda>(_, err).
       if err \<noteq> None then ret (False, err)
       else
         bindIO (sleep 1) (\<lambda>_.
         bindIO (exec w ctx [drweb_ctl, ''license'']) (\<lambda>(lOut, err).
         bindIO kill (\<lambda>_.
           if err \<noteq> None then ret (False, err)
           else if Contains lOut ''No license'' then ret (True, None)
           else if Contains lOut ''expires'' then ret (False, None)
           else ret (True, None)))))"

text \<open>Lines 89 to 94 of \<^verbatim>\<open>AvScan\<close>: the license is checked, and renewed when the check
  says that it expired.\<close>

definition licenseGuard :: "world \<Rightarrow> int option \<Rightarrow> unit io" where
  "licenseGuard w ctx =
     bindIO (didLicenseExpire w ctx) (\<lambda>(expired, err).
     bindIO (assert err) (\<lambda>_.
       if expired then bindIO (updateLicense w ctx) (\<lambda>err. assert err) else ret ()))"

text \<open>Lines 104 to 111 of \<^verbatim>\<open>AvScan\<close>: the scan command, run again after ten seconds
  when it returned an error.\<close>

definition scanCmd :: "world \<Rightarrow> string list" where
  "scanCmd w = [drweb_ctl, ''scan'', path w]"

definition runScan :: "world \<Rightarrow> int option \<Rightarrow> (string \<times> string option) io" where
  "runScan w ctx =
     bindIO (exec w ctx (scanCmd w)) (\<lambda>(output, sErr).
       if sErr \<noteq> None
       then bindIO (sleep 10) (\<lambda>_. exec w ctx (scanCmd w))
       else ret (output, sErr))"

definition AvScan :: "world \<Rightarrow> int \<Rightarrow> DrWEB io" where
  "AvScan w timeout =
     (let ctx = Some timeout in
      bindIO (licenseGuard w ctx) (\<lambda>_.
      bindIO (exec w ctx [drweb_configd, ''-d'']) (\<lambda>(_, err).
      bindIO (assert err) (\<lambda>_.
      bindIO (sleep 1) (\<lambda>_.
      bindIO (runScan w ctx) (\<lambda>(output, sErr).
      bindIO (exec w ctx [drweb_ctl, ''baseinfo'']) (\<lambda>(baseinfo, err).
      bindIO (assert err) (\<lambda>_.
      bindIO (ParseDrWEBOutput w output baseinfo sErr) (\<lambda>(results, err).
      bindIO kill (\<lambda>_.
      ret \<lparr>Results = results\<rparr>))))))))))"


section \<open>An engine for the examples\<close>

text \<open>
  A world in which every command succeeds: the target is \<^verbatim>\<open>/tmp/x\<close>, no license key is
  set, the file \<^verbatim>\<open>/opt/malice/UPDATED\<close> does not exist, the deadline never passes. The
  output of the license query and the result of the scan command (which may depend on what
  ran before) are parameters.
\<close>

definition exampleEngine :: "string \<Rightarrow> (event list \<Rightarrow> string \<times> string option) \<Rightarrow> world" where
  "exampleEngine license scan =
     \<lparr>path = ''/tmp/x'', LicenseKey = [], BuildTime = ''20180101'',
      run = (\<lambda>ctx t argv.
        if argv = [drweb_ctl, ''--version''] then (''drweb-ctl 11.0.7'', None)
        else if argv = [drweb_ctl, ''license''] then (license, None)
        else if argv = [drweb_ctl, ''scan'', ''/tmp/x''] then scan t
        else if argv = [drweb_ctl, ''baseinfo'']
          then (''Core engine: 7.0.1'' @ [newline] @ ''Virus base records: 123456'', None)
        else ([], None)),
      deadlineExceeded = (\<lambda>ctx t. False),
      updatedFile = None\<rparr>"

definition cleanEngine :: world where
  "cleanEngine = exampleEngine ''License expires 2030-Jan-01'' (\<lambda>t. (''/tmp/x - Ok'', None))"



section \<open>Observations on traces\<close>

text \<open>
  A renewal is a run of the license sub-command with \<^verbatim>\<open>--GetRegistered\<close> (and a key) or
  with \<^verbatim>\<open>--GetDemo\<close>; a scan is a run of the scan command on the target. \<open>emits P m\<close> says
  that the computation \<open>m\<close> only appends events to the trace, and only events that
  satisfy \<open>P\<close>.
\<close>

fun isRenewal :: "event \<Rightarrow> bool" where
  "isRenewal (Exec ctx argv) =
     (take 3 argv = [drweb_ctl, ''license'', ''--GetRegistered''] \<or>
      argv = [drweb_ctl, ''license'', ''--GetDemo''])"
| "isRenewal (Sleep n) = False"
| "isRenewal Kill = False"


definition emits :: "(event \<Rightarrow> bool) \<Rightarrow> 'a io \<Rightarrow> bool" where
  "emits P m = (\<forall>t. \<exists>evs. snd (m t) = t @ evs \<and> (\<forall>e\<in>set evs. P e))"

section \<open>More engines for the examples\<close>


definition unlicensedEngine :: world where
  "unlicensedEngine = exampleEngine ''No license''
     (\<lambda>t. (''Error: No valid license provided'', Some ''exit status 1''))"

definition threatEngine :: world where
  "threatEngine = exampleEngine ''License expires 2030-Jan-01''
     (\<lambda>t. (''/tmp/x - infected with EICAR Test File (NOT a Virus!)'' @ [newline],
           Some ''exit status 13''))"

definition checkTrace :: "int option \<Rightarrow> event list" where
  "checkTrace ctx =
     [Exec ctx [drweb_configd, ''-d''], Sleep 1, Exec ctx [drweb_ctl, ''license''], Kill]"


section \<open>Properties of the string functions and of the two loops\<close>

lemma HasPrefix_iff: "HasPrefix s p \<longleftrightarrow> (\<exists>b. s = p @ b)"
  unfolding HasPrefix_def
  by (metis append_eq_conv_conj append_take_drop_id length_append le_add1)

lemma Contains_iff: "Contains s sub \<longleftrightarrow> (\<exists>a b. s = a @ sub @ b)"
proof (induction s)
  case Nil
  then show ?case by simp
next
  case (Cons c cs)
  show ?case
  proof
    assume "Contains (c # cs) sub"
    then consider "HasPrefix (c # cs) sub" | "Contains cs sub" by auto
    then show "\<exists>a b. c # cs = a @ sub @ b"
    proof cases
      case 1
      then obtain b where "c # cs = sub @ b" by (auto simp: HasPrefix_iff)
      then have "c # cs = [] @ sub @ b" by simp
      then show ?thesis by blast
    next
      case 2
      with Cons.IH obtain a b where "cs = a @ sub @ b" by auto
      then have "c # cs = (c # a) @ sub @ b" by simp
      then show ?thesis by blast
    qed
  next
    assume "\<exists>a b. c # cs = a @ sub @ b"
    then obtain a b where ab: "c # cs = a @ sub @ b" by auto
    show "Contains (c # cs) sub"
    proof (cases a)
      case Nil
      with ab have "HasPrefix (c # cs) sub" by (auto simp: HasPrefix_iff)
      then show ?thesis by simp
    next
      case (Cons x a')
      with ab have "cs = a' @ sub @ b" by simp
      with Cons.IH have "Contains cs sub" by blast
      then show ?thesis by simp
    qed
  qed
qed

lemma Contains_nonempty: "Contains l pat \<Longrightarrow> pat \<noteq> [] \<Longrightarrow> l \<noteq> []"
  by (cases l) auto

lemma scanLoop_frame:
  "Engine (scanLoop p d ls) = Engine d"
  "Database (scanLoop p d ls) = Database d"
  "Updated (scanLoop p d ls) = Updated d"
  "MarkDown (scanLoop p d ls) = MarkDown d"
  "Error (scanLoop p d ls) = Error d"
  by (induction ls arbitrary: d) auto

lemma baseStep_frame:
  "Infected (baseStep d l) = Infected d"
  "Result (baseStep d l) = Result d"
  "Updated (baseStep d l) = Updated d"
  "MarkDown (baseStep d l) = MarkDown d"
  "Error (baseStep d l) = Error d"
  by (simp_all add: baseStep_def Let_def)

lemma baseLoop_frame:
  "Infected (baseLoop d ls) = Infected d"
  "Result (baseLoop d ls) = Result d"
  "Updated (baseLoop d ls) = Updated d"
  "MarkDown (baseLoop d ls) = MarkDown d"
  "Error (baseLoop d ls) = Error d"
  by (induction ls arbitrary: d) (simp_all add: baseStep_frame)

lemma scanLoop_stop:
  "Contains m ''- Ok'' \<Longrightarrow> scanLoop p d (pre @ m # post) = scanLoop p d pre"
proof (induction pre arbitrary: d)
  case Nil
  then show ?case using Contains_nonempty[of m "''- Ok''"] by auto
next
  case (Cons l pre)
  then show ?case by simp
qed

lemma scanLoop_no_clean:
  "\<forall>l\<in>set ls. \<not> Contains l ''- Ok'' \<Longrightarrow>
   scanLoop p d ls =
     (if filter (\<lambda>l. l \<noteq> []) ls = [] then d
      else d\<lparr>Infected := True,
             Result := TrimSpace (TrimPrefix (last (filter (\<lambda>l. l \<noteq> []) ls)) (p @ '' - ''))\<rparr>)"
proof (induction ls arbitrary: d)
  case Nil
  then show ?case by simp
next
  case (Cons l ls)
  then show ?case by simp
qed

lemma scanLoop_takeWhile:
  "scanLoop p d ls = scanLoop p d (takeWhile (\<lambda>l. \<not> Contains l ''- Ok'') ls)"
proof (induction ls arbitrary: d)
  case Nil
  then show ?case by simp
next
  case (Cons l ls)
  then show ?case using Contains_nonempty[of l "''- Ok''"] by auto
qed

lemma scanLoop_blank:
  "\<forall>l\<in>set pre. l = [] \<or> Contains l ''- Ok'' \<Longrightarrow> Contains m ''- Ok'' \<Longrightarrow>
   scanLoop p d (pre @ m # post) = d"
proof (induction pre arbitrary: d)
  case Nil
  then show ?case using Contains_nonempty[of m "''- Ok''"] by auto
next
  case (Cons l pre)
  then show ?case by auto
qed

lemma baseStep_Engine:
  "Engine (baseStep d l) =
     (if Contains l ''Core engine:'' then TrimSpace (TrimPrefix l ''Core engine:'') else Engine d)"
  using Contains_nonempty[of l "''Core engine:''"]
  by (auto simp: baseStep_def Let_def)

lemma baseStep_Database:
  "Database (baseStep d l) =
     (if Contains l ''Virus base records:''
      then TrimSpace (TrimPrefix l ''Virus base records:'') else Database d)"
  using Contains_nonempty[of l "''Virus base records:''"]
  by (auto simp: baseStep_def Let_def)

lemma baseLoop_Engine:
  "Engine (baseLoop d ls) =
     (if filter (\<lambda>l. Contains l ''Core engine:'') ls = [] then Engine d
      else TrimSpace (TrimPrefix (last (filter (\<lambda>l. Contains l ''Core engine:'') ls)) ''Core engine:''))"
  by (induction ls arbitrary: d) (simp_all add: baseStep_Engine)

lemma baseLoop_Database:
  "Database (baseLoop d ls) =
     (if filter (\<lambda>l. Contains l ''Virus base records:'') ls = [] then Database d
      else TrimSpace (TrimPrefix (last (filter (\<lambda>l. Contains l ''Virus base records:'') ls))
             ''Virus base records:''))"
  by (induction ls arbitrary: d) (simp_all add: baseStep_Database)

lemma Parse_nil:
  assumes "getDrWebVersion w t = (Inr v, t1)" and "getUpdatedDate w t1 = (Inr u, t2)"
  shows "ParseDrWEBOutput w out base None t =
           (Inr (baseLoop
                  (scanLoop (path w) (zeroResults\<lparr>Infected := False, Engine := v, Updated := u\<rparr>)
                     (Split out newline))
                  (Split base newline), None), t2)"
  using assms by (simp add: ParseDrWEBOutput_def bindIO_def ret_def)

section \<open>Properties of the traces\<close>

lemma emits_ret: "emits P (ret x)"
  by (simp add: emits_def ret_def)

lemma emits_fatal: "emits P (\<lambda>t. (Inl e, t))"
  by (simp add: emits_def)

lemma emits_bindIO:
  assumes "emits P m" and "\<And>x. emits P (f x)"
  shows "emits P (bindIO m f)"
  unfolding emits_def
proof
  fix t
  obtain r t' where mt: "m t = (r, t')" by (cases "m t")
  from assms(1) obtain evs where evs: "t' = t @ evs" "\<forall>e\<in>set evs. P e"
    using mt unfolding emits_def by (metis snd_conv)
  show "\<exists>evs. snd (bindIO m f t) = t @ evs \<and> (\<forall>e\<in>set evs. P e)"
  proof (cases r)
    case (Inl e)
    then show ?thesis using mt evs by (auto simp: bindIO_def)
  next
    case (Inr x)
    from assms(2)[of x] obtain evs' where "snd (f x t') = t' @ evs'" "\<forall>e\<in>set evs'. P e"
      unfolding emits_def by blast
    then have "snd (bindIO m f t) = t @ (evs @ evs')" "\<forall>e\<in>set (evs @ evs'). P e"
      using Inr mt evs by (auto simp: bindIO_def)
    then show ?thesis by blast
  qed
qed

lemma emits_exec: "P (Exec ctx argv) \<Longrightarrow> emits P (exec w ctx argv)"
  by (simp add: emits_def exec_def)

lemma emits_sleep: "P (Sleep n) \<Longrightarrow> emits P (sleep n)"
  by (simp add: emits_def sleep_def)

lemma emits_kill: "P Kill \<Longrightarrow> emits P kill"
  by (simp add: emits_def kill_def)

lemma emits_deadline: "emits P (deadline w ctx)"
  by (simp add: emits_def deadline_def)

lemma emits_assert: "emits P (assert err)"
  by (cases err) (simp_all add: assert_def emits_ret emits_fatal)

lemma emits_case_prod: "(\<And>a b. emits P (f a b)) \<Longrightarrow> emits P (case x of (a, b) \<Rightarrow> f a b)"
  by (cases x) simp

lemma emits_if: "emits P a \<Longrightarrow> emits P b \<Longrightarrow> emits P (if c then a else b)"
  by simp

lemmas emits_intros =
  emits_bindIO emits_case_prod emits_if emits_ret emits_assert emits_deadline emits_fatal

lemma emits_didLicenseExpire:
  assumes "P (Exec ctx [drweb_configd, ''-d''])" "P (Exec ctx [drweb_ctl, ''license''])"
    "P (Sleep 1)" "P Kill"
  shows "emits P (didLicenseExpire w ctx)"
  unfolding didLicenseExpire_def
  by (intro emits_intros emits_exec emits_sleep emits_kill assms)







lemma didLicenseExpire_no_renewal:
  "\<exists>evs. snd (didLicenseExpire w ctx t) = t @ evs \<and> (\<forall>e\<in>set evs. \<not> isRenewal e)"
proof -
  have "emits (\<lambda>e. \<not> isRenewal e) (didLicenseExpire w ctx)"
    by (rule emits_didLicenseExpire) (simp_all add: drweb_ctl_def drweb_configd_def)
  then show ?thesis unfolding emits_def by blast
qed

lemma guard_valid:
  assumes "didLicenseExpire w ctx t = (Inr (False, None), t1)"
  shows "licenseGuard w ctx t = (Inr (), t1)"
  using assms by (simp add: licenseGuard_def bindIO_def assert_def ret_def)








section \<open>The example engines, evaluated\<close>

lemmas io_defs =
  Let_def AvScan_def licenseGuard_def didLicenseExpire_def updateLicense_def runScan_def scanCmd_def
  bindIO_def exec_def sleep_def kill_def ret_def assert_def deadline_def

lemmas string_defs =
  TrimPrefix_def HasPrefix_def TrimSpace_def TrimRightSpace_def
  spaceWidth_def spaceWidthLast_def spaceRunes_def HasSuffix_def newline_def

lemma exampleEngine_fields:
  "path (exampleEngine lic sc) = ''/tmp/x''"
  "LicenseKey (exampleEngine lic sc) = []"
  "BuildTime (exampleEngine lic sc) = ''20180101''"
  "deadlineExceeded (exampleEngine lic sc) ctx t = False"
  "updatedFile (exampleEngine lic sc) = None"
  by (simp_all add: exampleEngine_def)

lemma exampleEngine_run:
  "run (exampleEngine lic sc) ctx t [drweb_configd, ''-d''] = ([], None)"
  "run (exampleEngine lic sc) ctx t [drweb_ctl, ''license''] = (lic, None)"
  "run (exampleEngine lic sc) ctx t [drweb_ctl, ''scan'', ''/tmp/x''] = sc t"
  "run (exampleEngine lic sc) ctx t [drweb_ctl, ''--version''] = (''drweb-ctl 11.0.7'', None)"
  "run (exampleEngine lic sc) ctx t [drweb_ctl, ''baseinfo''] =
     (''Core engine: 7.0.1'' @ [newline] @ ''Virus base records: 123456'', None)"
  "run (exampleEngine lic sc) ctx t [drweb_ctl, ''license'', ''--GetDemo''] = ([], None)"
  by (simp_all add: exampleEngine_def drweb_ctl_def drweb_configd_def)

lemma cleanEngine_version:
  "getDrWebVersion cleanEngine t = (Inr ''11.0.7'', t @ [Exec None [drweb_ctl, ''--version'']])"
  by (simp add: getDrWebVersion_def cleanEngine_def exampleEngine_def bindIO_def exec_def
      assert_def ret_def TrimPrefix_def HasPrefix_def TrimSpace_def TrimRightSpace_def
      spaceWidth_def spaceWidthLast_def spaceRunes_def HasSuffix_def)

lemma cleanEngine_updated:
  "getUpdatedDate cleanEngine t = (Inr ''20180101'', t)"
  by (simp add: getUpdatedDate_def cleanEngine_def exampleEngine_def ret_def)

lemma cleanEngine_path: "path cleanEngine = ''/tmp/x''"
  by (simp add: cleanEngine_def exampleEngine_def)

lemma cleanEngine_check:
  "didLicenseExpire cleanEngine ctx t = (Inr (False, None), t @ checkTrace ctx)"
proof -
  have c: "\<not> Contains ''License expires 2030-Jan-01'' ''No license''"
    "Contains ''License expires 2030-Jan-01'' ''expires''"
    by (simp_all add: HasPrefix_def)
  show ?thesis
    unfolding cleanEngine_def checkTrace_def
    using c by (simp add: didLicenseExpire_def bindIO_def exec_def sleep_def kill_def ret_def
        exampleEngine_run)
qed

lemma unlicensedEngine_renews:
  "filter isRenewal (snd (licenseGuard unlicensedEngine (Some 60) [])) =
     [Exec (Some 60) [drweb_ctl, ''license'', ''--GetDemo'']]"
  unfolding unlicensedEngine_def
  by (simp add: io_defs exampleEngine_run exampleEngine_fields HasPrefix_def)

section \<open>The verdict of the parser\<close>

text \<open>
  Claim C1, as amended. The claim says that any non-empty line without the marker
  \<^verbatim>\<open>"- Ok"\<close> makes the result infected. The loop stops at the first line that contains
  the marker, so only the lines before that one count. What holds: when the engine
  version and the update date are read without ending the process, and \<open>q\<close>, the
  non-empty lines before the first line containing \<^verbatim>\<open>"- Ok"\<close> (all non-empty lines when
  no line contains it), is not empty, then \<^verbatim>\<open>ParseDrWEBOutput\<close> with a \<^verbatim>\<open>nil\<close> error
  returns \<^verbatim>\<open>Infected == true\<close>, and \<^verbatim>\<open>Result\<close> is the last line of \<open>q\<close> with the prefix
  \<^verbatim>\<open>path + " - "\<close> removed (\<^verbatim>\<open>TrimPrefix\<close>) and white space trimmed (\<^verbatim>\<open>TrimSpace\<close>).
\<close>

theorem ParseDrWEBOutput_infected:
  assumes "getDrWebVersion w t = (Inr v, t1)" and "getUpdatedDate w t1 = (Inr u, t2)"
    and "q = filter (\<lambda>l. l \<noteq> []) (takeWhile (\<lambda>l. \<not> Contains l ''- Ok'') (Split out newline))"
    and "q \<noteq> []"
  shows "\<exists>r. ParseDrWEBOutput w out base None t = (Inr (r, None), t2) \<and> Infected r \<and>
             Result r = TrimSpace (TrimPrefix (last q) (path w @ '' - ''))"
proof -
  let ?ls = "takeWhile (\<lambda>l. \<not> Contains l ''- Ok'') (Split out newline)"
  let ?d = "zeroResults\<lparr>Infected := False, Engine := v, Updated := u\<rparr>"
  have "\<forall>l\<in>set ?ls. \<not> Contains l ''- Ok''"
    by (auto dest: set_takeWhileD)
  then have "scanLoop (path w) ?d ?ls =
      ?d\<lparr>Infected := True, Result := TrimSpace (TrimPrefix (last q) (path w @ '' - ''))\<rparr>"
    using assms(3,4) by (simp add: scanLoop_no_clean)
  then have "scanLoop (path w) ?d (Split out newline) =
      ?d\<lparr>Infected := True, Result := TrimSpace (TrimPrefix (last q) (path w @ '' - ''))\<rparr>"
    using scanLoop_takeWhile[of "path w" ?d "Split out newline"] by simp
  then show ?thesis
    using Parse_nil[OF assms(1,2), of out base] by (simp add: baseLoop_frame)
qed

text \<open>The amended claim at a transcript of two threat lines, a clean line and a third
  threat line: the second line decides, the line after the clean one is not read.\<close>

theorem ParseDrWEBOutput_infected_witness:
  "\<exists>r. ParseDrWEBOutput cleanEngine
          (''/tmp/x - Trojan.A'' @ [newline] @ [newline] @ ''/tmp/x - Trojan.B '' @ [newline] @
           ''/tmp/x - Ok'' @ [newline] @ ''/tmp/x - Trojan.C'') [] None [] =
            (Inr (r, None), [Exec None [drweb_ctl, ''--version'']]) \<and>
       Infected r \<and> Result r = ''Trojan.B''"
proof -
  have q: "[''/tmp/x - Trojan.A'', ''/tmp/x - Trojan.B ''] =
      filter (\<lambda>l. l \<noteq> []) (takeWhile (\<lambda>l. \<not> Contains l ''- Ok'')
        (Split (''/tmp/x - Trojan.A'' @ [newline] @ [newline] @ ''/tmp/x - Trojan.B '' @ [newline] @
           ''/tmp/x - Ok'' @ [newline] @ ''/tmp/x - Trojan.C'') newline))"
    by (simp add: newline_def HasPrefix_def)
  have t: "TrimSpace (TrimPrefix ''/tmp/x - Trojan.B '' (''/tmp/x'' @ '' - '')) = ''Trojan.B''"
    by (simp add: TrimPrefix_def HasPrefix_def TrimSpace_def TrimRightSpace_def
      spaceWidth_def spaceWidthLast_def spaceRunes_def HasSuffix_def)
  show ?thesis
    using ParseDrWEBOutput_infected[OF cleanEngine_version[of "[]"] cleanEngine_updated q] t
    by (simp add: cleanEngine_path)
qed

text \<open>Claim C1 as stated fails: the transcript below has a non-empty line without the
  marker, after a clean line, and the result is not infected.\<close>

theorem ParseDrWEBOutput_infected_counterexample:
  "''/tmp/x - Trojan'' \<in> set (Split (''/tmp/x - Ok'' @ [newline] @ ''/tmp/x - Trojan'') newline) \<and>
   ''/tmp/x - Trojan'' \<noteq> [] \<and> \<not> Contains ''/tmp/x - Trojan'' ''- Ok'' \<and>
   ParseDrWEBOutput cleanEngine (''/tmp/x - Ok'' @ [newline] @ ''/tmp/x - Trojan'') [] None [] =
     (Inr (\<lparr>Infected = False, Result = [], Engine = ''11.0.7'', Database = [],
            Updated = ''20180101'', MarkDown = [], Error = []\<rparr>, None),
      [Exec None [drweb_ctl, ''--version'']])"
proof -
  have "ParseDrWEBOutput cleanEngine (''/tmp/x - Ok'' @ [newline] @ ''/tmp/x - Trojan'') [] None [] =
     (Inr (\<lparr>Infected = False, Result = [], Engine = ''11.0.7'', Database = [],
            Updated = ''20180101'', MarkDown = [], Error = []\<rparr>, None),
      [Exec None [drweb_ctl, ''--version'']])"
    using Parse_nil[OF cleanEngine_version[of "[]"] cleanEngine_updated,
        of "''/tmp/x - Ok'' @ [newline] @ ''/tmp/x - Trojan''" "[]"]
    by (simp add: newline_def HasPrefix_def zeroResults_def baseStep_def)
  then show ?thesis
    by (simp add: newline_def HasPrefix_def)
qed

text \<open>
  Claim C2. When the engine version and the update date are read without ending the
  process: if the lines of the scan transcript are \<open>pre @ m # post\<close>, the line \<open>m\<close>
  contains \<^verbatim>\<open>"- Ok"\<close>, and every line of \<open>pre\<close> is empty or contains the marker (no
  earlier non-empty line is without it), then \<^verbatim>\<open>ParseDrWEBOutput\<close> with a \<^verbatim>\<open>nil\<close> error
  returns \<^verbatim>\<open>Infected == false\<close> (and an empty \<^verbatim>\<open>Result\<close>), and a transcript that differs only
  in the lines after \<open>m\<close> gives the same return value and the same trace: those lines
  change no field.
\<close>

theorem ParseDrWEBOutput_clean:
  assumes "getDrWebVersion w t = (Inr v, t1)" and "getUpdatedDate w t1 = (Inr u, t2)"
    and "Split out newline = pre @ m # post"
    and "Contains m ''- Ok''"
    and "\<forall>l\<in>set pre. l = [] \<or> Contains l ''- Ok''"
    and "Split out' newline = pre @ m # post'"
  shows "\<exists>r. ParseDrWEBOutput w out base None t = (Inr (r, None), t2) \<and>
             \<not> Infected r \<and> Result r = [] \<and>
             ParseDrWEBOutput w out' base None t = ParseDrWEBOutput w out base None t"
proof -
  let ?d = "zeroResults\<lparr>Infected := False, Engine := v, Updated := u\<rparr>"
  have a: "scanLoop (path w) ?d (Split out newline) = ?d"
    using assms(3,4,5) by (simp add: scanLoop_blank)
  have b: "scanLoop (path w) ?d (Split out' newline) = ?d"
    using assms(4,5,6) by (simp add: scanLoop_blank)
  show ?thesis
    using Parse_nil[OF assms(1,2), of out base] Parse_nil[OF assms(1,2), of out' base] a b
    by (simp add: baseLoop_frame zeroResults_def)
qed

text \<open>Claim C2 at a transcript of an empty line, a clean line and a threat line.\<close>

theorem ParseDrWEBOutput_clean_witness:
  "\<exists>r. ParseDrWEBOutput cleanEngine
          ([newline] @ ''/tmp/x - Ok'' @ [newline] @ ''/tmp/x - Trojan.C'') [] None [] =
            (Inr (r, None), [Exec None [drweb_ctl, ''--version'']]) \<and>
       \<not> Infected r \<and> Result r = [] \<and>
       ParseDrWEBOutput cleanEngine ([newline] @ ''/tmp/x - Ok'') [] None [] =
       ParseDrWEBOutput cleanEngine
          ([newline] @ ''/tmp/x - Ok'' @ [newline] @ ''/tmp/x - Trojan.C'') [] None []"
proof -
  have s1: "Split ([newline] @ ''/tmp/x - Ok'' @ [newline] @ ''/tmp/x - Trojan.C'') newline =
        [[]] @ ''/tmp/x - Ok'' # [''/tmp/x - Trojan.C'']"
    by (simp add: newline_def)
  have s2: "Split ([newline] @ ''/tmp/x - Ok'') newline = [[]] @ ''/tmp/x - Ok'' # []"
    by (simp add: newline_def)
  have m: "Contains ''/tmp/x - Ok'' ''- Ok''"
    by (simp add: HasPrefix_def)
  have p: "\<forall>l\<in>set [[]]. l = [] \<or> Contains l ''- Ok''"
    by simp
  show ?thesis
    using ParseDrWEBOutput_clean[OF cleanEngine_version[of "[]"] cleanEngine_updated s1 m p s2]
    by simp
qed

text \<open>
  Claim C9. The clean-result test is \<^verbatim>\<open>strings.Contains\<close>: the line \<open>a @ ''- Ok'' @ b\<close> has
  the marker anywhere. The claim speaks of the first line containing the marker, the one
  that stops the loop: no line of \<open>pre\<close> contains it. When \<open>q\<close>, the non-empty lines of
  \<open>pre\<close>, is not empty, then \<^verbatim>\<open>ParseDrWEBOutput\<close> with a \<^verbatim>\<open>nil\<close> error returns
  \<^verbatim>\<open>Infected == true\<close> and \<^verbatim>\<open>Result\<close> is what the last line of \<open>q\<close> gave (the marker line
  resets nothing), and the lines after the marker line change nothing.
\<close>

theorem ParseDrWEBOutput_clean_keeps_earlier:
  assumes "getDrWebVersion w t = (Inr v, t1)" and "getUpdatedDate w t1 = (Inr u, t2)"
    and "Split out newline = pre @ (a @ ''- Ok'' @ b) # post"
    and "\<forall>l\<in>set pre. \<not> Contains l ''- Ok''"
    and "q = filter (\<lambda>l. l \<noteq> []) pre" and "q \<noteq> []"
    and "Split out' newline = pre @ (a @ ''- Ok'' @ b) # post'"
  shows "\<exists>r. ParseDrWEBOutput w out base None t = (Inr (r, None), t2) \<and>
             Infected r \<and> Result r = TrimSpace (TrimPrefix (last q) (path w @ '' - '')) \<and>
             ParseDrWEBOutput w out' base None t = ParseDrWEBOutput w out base None t"
proof -
  let ?d = "zeroResults\<lparr>Infected := False, Engine := v, Updated := u\<rparr>"
  let ?m = "a @ ''- Ok'' @ b"
  have m: "Contains ?m ''- Ok''"
    unfolding Contains_iff by blast
  have pre: "scanLoop (path w) ?d pre =
      ?d\<lparr>Infected := True, Result := TrimSpace (TrimPrefix (last q) (path w @ '' - ''))\<rparr>"
    using assms(4,5,6) by (simp add: scanLoop_no_clean)
  have x: "scanLoop (path w) ?d (Split out newline) = scanLoop (path w) ?d pre"
    using assms(3) scanLoop_stop[OF m] by simp
  have y: "scanLoop (path w) ?d (Split out' newline) = scanLoop (path w) ?d pre"
    using assms(7) scanLoop_stop[OF m] by simp
  show ?thesis
    using Parse_nil[OF assms(1,2), of out base] Parse_nil[OF assms(1,2), of out' base] x y pre
    by (simp add: baseLoop_frame)
qed

text \<open>Claim C9 at a threat line followed by a line with the marker in its middle.\<close>

theorem ParseDrWEBOutput_clean_keeps_earlier_witness:
  "\<exists>r. ParseDrWEBOutput cleanEngine
          (''/tmp/x - Trojan.A'' @ [newline] @ ''note - Ok, done'' @ [newline] @ ''/tmp/x - Trojan.C'')
          [] None [] =
            (Inr (r, None), [Exec None [drweb_ctl, ''--version'']]) \<and>
       Infected r \<and> Result r = ''Trojan.A'' \<and>
       ParseDrWEBOutput cleanEngine (''/tmp/x - Trojan.A'' @ [newline] @ ''note - Ok, done'') [] None [] =
       ParseDrWEBOutput cleanEngine
          (''/tmp/x - Trojan.A'' @ [newline] @ ''note - Ok, done'' @ [newline] @ ''/tmp/x - Trojan.C'')
          [] None []"
proof -
  have s1: "Split (''/tmp/x - Trojan.A'' @ [newline] @ ''note - Ok, done'' @ [newline] @
              ''/tmp/x - Trojan.C'') newline =
        [''/tmp/x - Trojan.A''] @ (''note '' @ ''- Ok'' @ '', done'') # [''/tmp/x - Trojan.C'']"
    by (simp add: newline_def)
  have s2: "Split (''/tmp/x - Trojan.A'' @ [newline] @ ''note - Ok, done'') newline =
        [''/tmp/x - Trojan.A''] @ (''note '' @ ''- Ok'' @ '', done'') # []"
    by (simp add: newline_def)
  have p: "\<forall>l\<in>set [''/tmp/x - Trojan.A'']. \<not> Contains l ''- Ok''"
    by (simp add: HasPrefix_def)
  have q: "[''/tmp/x - Trojan.A''] = filter (\<lambda>l. l \<noteq> []) [''/tmp/x - Trojan.A'']"
    by simp
  have t: "TrimSpace (TrimPrefix ''/tmp/x - Trojan.A'' (''/tmp/x'' @ '' - '')) = ''Trojan.A''"
    by (simp add: TrimPrefix_def HasPrefix_def TrimSpace_def TrimRightSpace_def
      spaceWidth_def spaceWidthLast_def spaceRunes_def HasSuffix_def)
  show ?thesis
    using ParseDrWEBOutput_clean_keeps_earlier[OF cleanEngine_version[of "[]"]
        cleanEngine_updated s1 p q _ s2] t
    by (simp add: cleanEngine_path)
qed

text \<open>
  Claim C3. With a non-\<^verbatim>\<open>nil\<close> error \<^verbatim>\<open>ParseDrWEBOutput\<close> returns at once: the trace is
  unchanged (no command runs), the error is handed back, the \<^verbatim>\<open>Error\<close> field is
  \<^verbatim>\<open>"ScanEngine is not available"\<close> when the text of the error is \<^verbatim>\<open>"exit status 119"\<close> and
  the text of the error otherwise, \<^verbatim>\<open>Infected\<close> is false, and the return value is the same
  for any other pair of transcripts.
\<close>

theorem ParseDrWEBOutput_error:
  "\<exists>r. ParseDrWEBOutput w out base (Some e) t = (Inr (r, Some e), t) \<and>
       Error r = (if e = ''exit status 119'' then ''ScanEngine is not available'' else e) \<and>
       \<not> Infected r \<and>
       ParseDrWEBOutput w out' base' (Some e) t = ParseDrWEBOutput w out base (Some e) t"
  by (simp add: ParseDrWEBOutput_def ret_def zeroResults_def)

text \<open>Claim C3 at exit status 119 and at exit status 1.\<close>

theorem ParseDrWEBOutput_error_witness:
  "(\<exists>r. ParseDrWEBOutput cleanEngine ''/tmp/x - Trojan.A'' ''Core engine: 7.0.1''
          (Some ''exit status 119'') [] = (Inr (r, Some ''exit status 119''), []) \<and>
       Error r = ''ScanEngine is not available'' \<and> \<not> Infected r \<and>
       ParseDrWEBOutput cleanEngine [] [] (Some ''exit status 119'') [] =
       ParseDrWEBOutput cleanEngine ''/tmp/x - Trojan.A'' ''Core engine: 7.0.1''
          (Some ''exit status 119'') []) \<and>
   (\<exists>r. ParseDrWEBOutput cleanEngine ''/tmp/x - Trojan.A'' ''Core engine: 7.0.1''
          (Some ''exit status 1'') [] = (Inr (r, Some ''exit status 1''), []) \<and>
       Error r = ''exit status 1'' \<and> \<not> Infected r \<and>
       ParseDrWEBOutput cleanEngine [] [] (Some ''exit status 1'') [] =
       ParseDrWEBOutput cleanEngine ''/tmp/x - Trojan.A'' ''Core engine: 7.0.1''
          (Some ''exit status 1'') [])"
  using ParseDrWEBOutput_error[of cleanEngine "''/tmp/x - Trojan.A''" "''Core engine: 7.0.1''"
      "''exit status 119''" "[]" "[]" "[]"]
    ParseDrWEBOutput_error[of cleanEngine "''/tmp/x - Trojan.A''" "''Core engine: 7.0.1''"
      "''exit status 1''" "[]" "[]" "[]"]
  by simp

text \<open>
  What the loop over the \<^verbatim>\<open>baseinfo\<close> transcript leaves in the two fields. When the engine
  version \<open>v\<close> and the update date are read without ending the process, \<^verbatim>\<open>Engine\<close> is \<open>v\<close>
  when no line contains \<^verbatim>\<open>"Core engine:"\<close>, otherwise \<^verbatim>\<open>TrimSpace(TrimPrefix(l, "Core engine:"))\<close>
  for the last such line \<open>l\<close>; \<^verbatim>\<open>Database\<close> is empty when no line contains
  \<^verbatim>\<open>"Virus base records:"\<close>, otherwise the same expression of the last such line. The test is
  \<^verbatim>\<open>Contains\<close> and the removal is \<^verbatim>\<open>TrimPrefix\<close>: a line that has the pattern elsewhere than
  at its start is taken whole.
\<close>

lemma ParseDrWEBOutput_baseinfo_fields:
  assumes "getDrWebVersion w t = (Inr v, t1)" and "getUpdatedDate w t1 = (Inr u, t2)"
    and "es = filter (\<lambda>l. Contains l ''Core engine:'') (Split base newline)"
    and "ds = filter (\<lambda>l. Contains l ''Virus base records:'') (Split base newline)"
  shows "\<exists>r. ParseDrWEBOutput w out base None t = (Inr (r, None), t2) \<and>
             Engine r = (if es = [] then v
                         else TrimSpace (TrimPrefix (last es) ''Core engine:'')) \<and>
             Database r = (if ds = [] then []
                           else TrimSpace (TrimPrefix (last ds) ''Virus base records:''))"
  using Parse_nil[OF assms(1,2), of out base] assms(3,4)
  by (simp add: baseLoop_Engine baseLoop_Database scanLoop_frame zeroResults_def)

text \<open>
  Claim C5 says that every line containing \<^verbatim>\<open>"Core engine:"\<close> sets \<^verbatim>\<open>Engine\<close> to what follows
  the pattern, trimmed. The code does so only for a line that starts with the pattern. At a
  transcript whose engine line is indented by one space, \<^verbatim>\<open>Engine\<close> is
  \<^verbatim>\<open>"Core engine: 7.0.1"\<close>, the label included, and not \<^verbatim>\<open>"7.0.1"\<close>; at a transcript with the
  pattern in the middle of a later line, \<^verbatim>\<open>Engine\<close> is that whole line. The third transcript
  is the one of the claim, with the pattern at the start of its line: there \<^verbatim>\<open>Engine\<close> is
  \<^verbatim>\<open>"7.0.1"\<close> and \<^verbatim>\<open>Database\<close> is \<^verbatim>\<open>"123456"\<close>.
\<close>

theorem ParseDrWEBOutput_metadata_label_kept:
  "fst (ParseDrWEBOutput cleanEngine ''/tmp/x - Ok''
          ('' Core engine: 7.0.1'' @ [newline] @ ''Virus base records: 123456'') None []) =
     Inr (\<lparr>Infected = False, Result = [], Engine = ''Core engine: 7.0.1'',
            Database = ''123456'', Updated = ''20180101'', MarkDown = [], Error = []\<rparr>, None) \<and>
   fst (ParseDrWEBOutput cleanEngine ''/tmp/x - Ok''
          (''Core engine: 7.0.1'' @ [newline] @ ''see Core engine: notes'' @ [newline] @
           ''Virus base records: 123456'') None []) =
     Inr (\<lparr>Infected = False, Result = [], Engine = ''see Core engine: notes'',
            Database = ''123456'', Updated = ''20180101'', MarkDown = [], Error = []\<rparr>, None) \<and>
   fst (ParseDrWEBOutput cleanEngine ''/tmp/x - Ok''
          (''Core engine: 7.0.1'' @ [newline] @ ''Virus base records: 123456'') None []) =
     Inr (\<lparr>Infected = False, Result = [], Engine = ''7.0.1'',
            Database = ''123456'', Updated = ''20180101'', MarkDown = [], Error = []\<rparr>, None)"
  unfolding cleanEngine_def
  by (simp add: ParseDrWEBOutput_def getDrWebVersion_def getUpdatedDate_def io_defs
      exampleEngine_run exampleEngine_fields zeroResults_def baseStep_def string_defs)

text \<open>
  Claim C10. With a non-\<^verbatim>\<open>nil\<close> error every field of the returned \<^verbatim>\<open>ResultsData\<close> other
  than \<^verbatim>\<open>Error\<close> has its zero value, whatever the transcripts hold.
\<close>

theorem ParseDrWEBOutput_error_zero_fields:
  "\<exists>r. ParseDrWEBOutput w out base (Some e) t = (Inr (r, Some e), t) \<and>
       Infected r = False \<and> Result r = [] \<and> Engine r = [] \<and> Database r = [] \<and>
       Updated r = [] \<and> MarkDown r = []"
  by (simp add: ParseDrWEBOutput_def ret_def zeroResults_def)

text \<open>Claim C10 at exit status 2, with a threat line and engine metadata in the
  transcripts.\<close>

theorem ParseDrWEBOutput_error_zero_fields_witness:
  "\<exists>r. ParseDrWEBOutput cleanEngine ''/tmp/x - Trojan.A''
          (''Core engine: 7.0.1'' @ [newline] @ ''Virus base records: 123456'')
          (Some ''exit status 2'') [] = (Inr (r, Some ''exit status 2''), []) \<and>
       Infected r = False \<and> Result r = [] \<and> Engine r = [] \<and> Database r = [] \<and>
       Updated r = [] \<and> MarkDown r = []"
  using ParseDrWEBOutput_error_zero_fields[of cleanEngine "''/tmp/x - Trojan.A''"
      "''Core engine: 7.0.1'' @ [newline] @ ''Virus base records: 123456''" "''exit status 2''" "[]"]
  by simp

section \<open>The license\<close>

text \<open>
  Claim C6. When the daemon starts and the license query runs without error and prints
  \<open>lOut\<close>, \<^verbatim>\<open>didLicenseExpire\<close> returns \<^verbatim>\<open>true\<close> when \<open>lOut\<close> contains \<^verbatim>\<open>"No license"\<close>,
  otherwise \<^verbatim>\<open>false\<close> when it contains \<^verbatim>\<open>"expires"\<close>, otherwise \<^verbatim>\<open>true\<close>; the error it returns
  is \<^verbatim>\<open>nil\<close>.
\<close>

theorem didLicenseExpire_classifies:
  assumes "run w ctx t [drweb_configd, ''-d''] = (o1, None)"
    and "run w ctx (t @ [Exec ctx [drweb_configd, ''-d''], Sleep 1]) [drweb_ctl, ''license'']
           = (lOut, None)"
  shows "didLicenseExpire w ctx t =
           (Inr (if Contains lOut ''No license'' then True
                 else if Contains lOut ''expires'' then False
                 else True, None),
            t @ [Exec ctx [drweb_configd, ''-d''], Sleep 1, Exec ctx [drweb_ctl, ''license''], Kill])"
  using assms
  by (simp add: didLicenseExpire_def bindIO_def exec_def sleep_def kill_def ret_def)

text \<open>Claim C6 at three outputs: one with both markers, one with \<^verbatim>\<open>"expires"\<close> alone, one
  with neither.\<close>

theorem didLicenseExpire_classifies_witness:
  "fst (didLicenseExpire (exampleEngine ''No license. A trial expires after 30 days'' (\<lambda>t. ([], None)))
         (Some 60) []) = Inr (True, None) \<and>
   fst (didLicenseExpire (exampleEngine ''License expires 2030-Jan-01'' (\<lambda>t. ([], None)))
         (Some 60) []) = Inr (False, None) \<and>
   fst (didLicenseExpire (exampleEngine ''License has been revoked'' (\<lambda>t. ([], None)))
         (Some 60) []) = Inr (True, None)"
proof -
  have c: "Contains ''No license. A trial expires after 30 days'' ''No license''"
    "\<not> Contains ''License expires 2030-Jan-01'' ''No license''"
    "Contains ''License expires 2030-Jan-01'' ''expires''"
    "\<not> Contains ''License has been revoked'' ''No license''"
    "\<not> Contains ''License has been revoked'' ''expires''"
    by (simp_all add: HasPrefix_def)
  show ?thesis
    using didLicenseExpire_classifies[OF exampleEngine_run(1) exampleEngine_run(2),
        of "''No license. A trial expires after 30 days''" "\<lambda>t. ([], None)" "Some 60" "[]"]
      didLicenseExpire_classifies[OF exampleEngine_run(1) exampleEngine_run(2),
        of "''License expires 2030-Jan-01''" "\<lambda>t. ([], None)" "Some 60" "[]"]
      didLicenseExpire_classifies[OF exampleEngine_run(1) exampleEngine_run(2),
        of "''License has been revoked''" "\<lambda>t. ([], None)" "Some 60" "[]"]
      c
    by simp
qed

text \<open>
  Claim C8. When the license check returns \<^verbatim>\<open>false\<close> (not expired) and no error, the
  license guard runs nothing but the check: the trace has the renewals it had before.
  When the check run again right after also returns \<^verbatim>\<open>false\<close>, two guards in a row have
  run no renewal either.
\<close>

theorem licenseGuard_valid_no_renewal:
  assumes "didLicenseExpire w ctx t = (Inr (False, None), t1)"
    and "didLicenseExpire w ctx t1 = (Inr (False, None), t2)"
  shows "licenseGuard w ctx t = (Inr (), t1) \<and>
         filter isRenewal t1 = filter isRenewal t \<and>
         bindIO (licenseGuard w ctx) (\<lambda>_. licenseGuard w ctx) t = (Inr (), t2) \<and>
         filter isRenewal t2 = filter isRenewal t"
proof -
  from didLicenseExpire_no_renewal[of w ctx t] assms(1)
  have a: "filter isRenewal t1 = filter isRenewal t" by auto
  from didLicenseExpire_no_renewal[of w ctx t1] assms(2)
  have b: "filter isRenewal t2 = filter isRenewal t1" by auto
  show ?thesis
    using guard_valid[OF assms(1)] guard_valid[OF assms(2)] a b
    by (simp add: bindIO_def)
qed

text \<open>Claim C8 at the engine whose license query prints an expiry date.\<close>

theorem licenseGuard_valid_no_renewal_witness:
  "licenseGuard cleanEngine (Some 60) [] = (Inr (), checkTrace (Some 60)) \<and>
   filter isRenewal (checkTrace (Some 60)) = [] \<and>
   bindIO (licenseGuard cleanEngine (Some 60)) (\<lambda>_. licenseGuard cleanEngine (Some 60)) [] =
     (Inr (), checkTrace (Some 60) @ checkTrace (Some 60)) \<and>
   filter isRenewal (checkTrace (Some 60) @ checkTrace (Some 60)) = []"
  using licenseGuard_valid_no_renewal[OF cleanEngine_check[of "Some 60" "[]"]
      cleanEngine_check[of "Some 60" "[] @ checkTrace (Some 60)"]]
  by simp

section \<open>The scan and its retry\<close>




text \<open>
  Claim C4, at the threat engine: the scan command ends with exit status 13 and prints the
  threat line. \<^verbatim>\<open>AvScan\<close> never passes the error of the scan command to \<^verbatim>\<open>assert\<close>, which is
  where exit status 13 is skipped: the scan is run a second time and the error reaches
  \<^verbatim>\<open>ParseDrWEBOutput\<close>, which returns \<^verbatim>\<open>Infected == false\<close> and
  \<^verbatim>\<open>Error == "exit status 13"\<close>. With a \<^verbatim>\<open>nil\<close> error the same transcript gives
  \<^verbatim>\<open>Infected == true\<close>.
\<close>

theorem AvScan_exit_status_13:
  "AvScan threatEngine 60 [] =
     (Inr \<lparr>Results = \<lparr>Infected = False, Result = [], Engine = [], Database = [],
                       Updated = [], MarkDown = [], Error = ''exit status 13''\<rparr>\<rparr>,
      [Exec (Some 60) [drweb_configd, ''-d''], Sleep 1,
       Exec (Some 60) [drweb_ctl, ''license''], Kill,
       Exec (Some 60) [drweb_configd, ''-d''], Sleep 1,
       Exec (Some 60) [drweb_ctl, ''scan'', ''/tmp/x''], Sleep 10,
       Exec (Some 60) [drweb_ctl, ''scan'', ''/tmp/x''],
       Exec (Some 60) [drweb_ctl, ''baseinfo''], Kill]) \<and>
   fst (ParseDrWEBOutput threatEngine
          (''/tmp/x - infected with EICAR Test File (NOT a Virus!)'' @ [newline])
          (''Core engine: 7.0.1'' @ [newline] @ ''Virus base records: 123456'') None []) =
     Inr (\<lparr>Infected = True, Result = ''infected with EICAR Test File (NOT a Virus!)'',
            Engine = ''7.0.1'', Database = ''123456'', Updated = ''20180101'',
            MarkDown = [], Error = []\<rparr>, None)"
proof -
  have c: "\<not> Contains ''License expires 2030-Jan-01'' ''No license''"
    "Contains ''License expires 2030-Jan-01'' ''expires''"
    by (simp_all add: HasPrefix_def)
  have a: "AvScan threatEngine 60 [] =
     (Inr \<lparr>Results = \<lparr>Infected = False, Result = [], Engine = [], Database = [],
                       Updated = [], MarkDown = [], Error = ''exit status 13''\<rparr>\<rparr>,
      [Exec (Some 60) [drweb_configd, ''-d''], Sleep 1,
       Exec (Some 60) [drweb_ctl, ''license''], Kill,
       Exec (Some 60) [drweb_configd, ''-d''], Sleep 1,
       Exec (Some 60) [drweb_ctl, ''scan'', ''/tmp/x''], Sleep 10,
       Exec (Some 60) [drweb_ctl, ''scan'', ''/tmp/x''],
       Exec (Some 60) [drweb_ctl, ''baseinfo''], Kill])"
    unfolding threatEngine_def using c
    by (simp add: io_defs exampleEngine_run exampleEngine_fields ParseDrWEBOutput_def
        zeroResults_def)
  have b: "fst (ParseDrWEBOutput threatEngine
          (''/tmp/x - infected with EICAR Test File (NOT a Virus!)'' @ [newline])
          (''Core engine: 7.0.1'' @ [newline] @ ''Virus base records: 123456'') None []) =
     Inr (\<lparr>Infected = True, Result = ''infected with EICAR Test File (NOT a Virus!)'',
            Engine = ''7.0.1'', Database = ''123456'', Updated = ''20180101'',
            MarkDown = [], Error = []\<rparr>, None)"
    unfolding threatEngine_def
    by (simp add: ParseDrWEBOutput_def getDrWebVersion_def getUpdatedDate_def io_defs
        exampleEngine_run exampleEngine_fields zeroResults_def baseStep_def string_defs)
  from a b show ?thesis by simp
qed

end
